theory Spec2Isabelle
  imports Complex_Main "HOL-Library.Stream"
begin

section \<open>Python strings\<close>

text \<open>
  A Python \<open>str\<close> whose code points are all below 256 is a list of HOL characters, the
  character with code \<open>n\<close> standing for the code point \<open>n\<close>. On that range
  \<open>str.isspace\<close> holds for the twelve code points listed below, and \<open>str.lower\<close>
  moves the upper-case letters \<open>A\<close>..\<open>Z\<close> and \<open>U+00C0\<close>..\<open>U+00DE\<close> (without the
  multiplication sign \<open>U+00D7\<close>) up by 32, which is setting bit 5, and leaves every other
  code point alone.
\<close>

definition py_isspace :: "char \<Rightarrow> bool" where
  "py_isspace c = (of_char c \<in> set [9, 10, 11, 12, 13, 28, 29, 30, 31, 32, 133, 160 :: nat])"

definition py_isupper :: "char \<Rightarrow> bool" where
  "py_isupper c =
     (let n = of_char c :: nat
      in (65 \<le> n \<and> n \<le> 90) \<or> (192 \<le> n \<and> n \<le> 222 \<and> n \<noteq> 215))"

fun lower_char :: "char \<Rightarrow> char" where
  "lower_char (Char b0 b1 b2 b3 b4 b5 b6 b7) =
     (if py_isupper (Char b0 b1 b2 b3 b4 b5 b6 b7) then Char b0 b1 b2 b3 b4 True b6 b7
      else Char b0 b1 b2 b3 b4 b5 b6 b7)"

definition lower :: "string \<Rightarrow> string" where
  "lower s = map lower_char s"

definition strip :: "string \<Rightarrow> string" where
  "strip s = rev (dropWhile py_isspace (rev (dropWhile py_isspace s)))"

section \<open>Configuration\<close>

text \<open>
  The configuration dictionary of both front ends: keys \<open>cups\<close> and \<open>shuffle_time\<close>,
  and the optional keys \<open>max_rounds\<close> and \<open>time_limit\<close>. A key that is absent and a key
  bound to Python's \<open>None\<close> are both \<open>None\<close> here: the code reads the two optional keys
  through \<open>dict.get\<close> only, or behind a test of \<open>dict.get\<close>.
\<close>

record game_config =
  cups :: "string list"
  shuffle_time :: real
  max_rounds :: "int option"
  time_limit :: "int option"

text \<open>\<open>config.get('time_limit', 30)\<close>\<close>

definition get_time_limit :: "game_config \<Rightarrow> int" where
  "get_time_limit c = (case time_limit c of None \<Rightarrow> 30 | Some t \<Rightarrow> t)"

text \<open>
  The test \<open>if config.get('max_rounds'): ... if total_rounds >= config['max_rounds']\<close>
  of both front ends; \<open>None\<close> and \<open>0\<close> count as false in the outer test.
\<close>

definition max_rounds_reached :: "game_config \<Rightarrow> int \<Rightarrow> bool" where
  "max_rounds_reached c total_rounds =
     (case max_rounds c of None \<Rightarrow> False | Some m \<Rightarrow> m \<noteq> 0 \<and> m \<le> total_rounds)"

datatype difficulty = EASY | MEDIUM | HARD

datatype game_mode = CLASSIC | TIMED | STREAK

fun difficulty_value :: "difficulty \<Rightarrow> string" where
  "difficulty_value EASY = ''easy''"
| "difficulty_value MEDIUM = ''medium''"
| "difficulty_value HARD = ''hard''"

fun game_mode_value :: "game_mode \<Rightarrow> string" where
  "game_mode_value CLASSIC = ''classic''"
| "game_mode_value TIMED = ''timed''"
| "game_mode_value STREAK = ''streak''"

text \<open>The table \<open>configs\<close> of \<open>CupGame._get_game_config\<close> (cup_game_enhanced.py).\<close>

fun configs :: "difficulty \<Rightarrow> game_config" where
  "configs EASY =
     \<lparr>cups = [''left'', ''right''], shuffle_time = 2.0,
      max_rounds = None, time_limit = None\<rparr>"
| "configs MEDIUM =
     \<lparr>cups = [''left'', ''middle'', ''right''], shuffle_time = 1.5,
      max_rounds = None, time_limit = None\<rparr>"
| "configs HARD =
     \<lparr>cups = [''left'', ''middle-left'', ''middle-right'', ''right''], shuffle_time = 1.0,
      max_rounds = None, time_limit = None\<rparr>"

definition get_game_config :: "difficulty \<Rightarrow> game_mode \<Rightarrow> game_config" where
  "get_game_config d m =
     (if m = TIMED then (configs d)\<lparr>time_limit := Some 30\<rparr>
      else if m = STREAK then (configs d)\<lparr>max_rounds := Some 10\<rparr>
      else configs d)"

text \<open>
  The literal dictionary \<open>game_config\<close> of \<open>start_game\<close> (web_app.py), keyed by the
  difficulty string, and the mode-specific keys added to a copy of its entry.
\<close>

definition web_game_config :: "(string \<times> game_config) list" where
  "web_game_config =
     [(''easy'', \<lparr>cups = [''left'', ''right''], shuffle_time = 2.0,
                  max_rounds = None, time_limit = None\<rparr>),
      (''medium'', \<lparr>cups = [''left'', ''middle'', ''right''], shuffle_time = 1.5,
                    max_rounds = None, time_limit = None\<rparr>),
      (''hard'', \<lparr>cups = [''left'', ''middle-left'', ''middle-right'', ''right''],
                  shuffle_time = 1.0, max_rounds = None, time_limit = None\<rparr>)]"

definition add_mode_config :: "string \<Rightarrow> game_config \<Rightarrow> game_config" where
  "add_mode_config m c =
     (if m = ''timed'' then c\<lparr>time_limit := Some 30\<rparr>
      else if m = ''streak'' then c\<lparr>max_rounds := Some 10\<rparr>
      else c)"

text \<open>The fixed prize list of web_app.py and cup_game_enhanced.py.\<close>

definition prizes :: "string list" where
  "prizes =
     [''a Disney Cruise ticket'', ''a Ferrari'', ''a mansion in Beverly Hills'',
      ''a giraffe'', ''Jordan Air 1s'', ''a golden watch'', ''a private jet'',
      ''a treasure chest'', ''a magical sword'', ''a diamond ring'']"

section \<open>The environment: store, random source, clock\<close>

text \<open>
  One row of the table \<open>game_sessions\<close>; the row id and the timestamp are assigned by the
  store and are not part of the model.
\<close>

datatype session_record =
  SessionRecord (rec_difficulty: string) (rec_game_mode: string)
    (rec_wins: int) (rec_losses: int) (duration_seconds: "real option")

text \<open>
  Everything outside the program that its functions read or write:
  \<^item> \<open>db_rows\<close>: the rows inserted so far, oldest first;
  \<^item> \<open>db_faults\<close>: for each coming insert, whether sqlite raises \<open>sqlite3.Error\<close> on it;
  \<^item> \<open>rng\<close>: the coming outputs of the module-level random source;
  \<^item> \<open>clock\<close>: the coming readings of \<open>time.time()\<close>, in seconds (exact reals stand
    for the floats).
\<close>

record env =
  db_rows :: "session_record list"
  db_faults :: "bool stream"
  rng :: "nat stream"
  clock :: "real stream"

datatype exn = Sqlite3Error | IndexError | TypeError | EOFError | KeyError

definition time_time :: "'a env_scheme \<Rightarrow> real \<times> 'a env_scheme" where
  "time_time w = (shd (clock w), w\<lparr>clock := stl (clock w)\<rparr>)"

text \<open>
  \<open>random.choice(seq)\<close>: \<open>IndexError\<close> on an empty sequence, else the element at an
  index below \<open>len(seq)\<close> taken from the random source.
\<close>

definition random_choice :: "'b list \<Rightarrow> 'a env_scheme \<Rightarrow> (exn + 'b) \<times> 'a env_scheme" where
  "random_choice xs w =
     (if xs = [] then (Inl IndexError, w)
      else (Inr (xs ! (shd (rng w) mod length xs)), w\<lparr>rng := stl (rng w)\<rparr>))"

text \<open>
  \<open>DatabaseManager.save_game_session\<close>: insert one row; an \<open>sqlite3.Error\<close> is logged
  and raised again, and then no row is inserted.
\<close>

definition save_game_session ::
  "string \<Rightarrow> string \<Rightarrow> int \<Rightarrow> int \<Rightarrow> real option \<Rightarrow> 'a env_scheme \<Rightarrow> exn option \<times> 'a env_scheme" where
  "save_game_session d m w l duration e =
     (if shd (db_faults e) then (Some Sqlite3Error, e\<lparr>db_faults := stl (db_faults e)\<rparr>)
      else (None, e\<lparr>db_rows := db_rows e @ [SessionRecord d m w l duration],
                      db_faults := stl (db_faults e)\<rparr>))"

section \<open>The web application (web_app.py)\<close>

text \<open>
  The Flask session of one caller: empty (\<open>None\<close>) until \<open>start_game\<close> has written its
  eight keys. The handlers run one at a time on it; every handler returns a response, also
  after an exception, so the keys written before the exception stay written.
\<close>

record game_session =
  game_active :: bool
  difficulty :: string
  game_mode :: string
  config :: game_config
  wins :: int
  losses :: int
  start_time :: real
  round_number :: int

record world = env +
  session :: "game_session option"

text \<open>
  The JSON bodies of the responses, one constructor for each shape the handlers build;
  a response is the status code with the body.
  \<^item> \<open>Error error\<close>
  \<^item> \<open>Started config message\<close>, with \<open>success: True\<close>
  \<^item> \<open>TimeOver wins losses\<close>: \<open>game_over: True\<close>, \<open>reason: 'Time limit exceeded'\<close> and
    the final score
  \<^item> \<open>RoundOver won_round prize_cup prize reason wins losses duration\<close>, with
    \<open>game_over: True\<close>
  \<^item> \<open>RoundPlayed won_round prize_cup prize wins losses round_number time_remaining
    shuffle_time\<close>, with \<open>game_over: False\<close>
  \<^item> \<open>Ended wins losses duration\<close>, with \<open>success: True\<close>
  \<^item> \<open>StatusInactive\<close>: \<open>game_active: False\<close> alone
  \<^item> \<open>StatusExpired\<close>: \<open>game_active: False\<close>, \<open>game_over: True\<close>,
    \<open>reason: 'Time expired'\<close>
  \<^item> \<open>StatusActive difficulty game_mode wins losses round_number time_remaining config\<close>
\<close>

datatype body =
    Error string
  | Started game_config string
  | TimeOver int int
  | RoundOver bool string string string int int real
  | RoundPlayed bool string string int int int "real option" real
  | Ended int int real
  | StatusInactive
  | StatusExpired
  | StatusActive string string int int int "real option" game_config

type_synonym response = "nat \<times> body"

text \<open>The keys \<open>game_over\<close> and \<open>reason\<close> of a body, where it has them.\<close>

fun game_over :: "body \<Rightarrow> bool option" where
  "game_over (TimeOver w l) = Some True"
| "game_over (RoundOver won cup prize r w l d) = Some True"
| "game_over (RoundPlayed won cup prize w l n t sh) = Some False"
| "game_over StatusExpired = Some True"
| "game_over _ = None"

fun reason :: "body \<Rightarrow> string option" where
  "reason (TimeOver w l) = Some ''Time limit exceeded''"
| "reason (RoundOver won cup prize r w l d) = Some r"
| "reason StatusExpired = Some ''Time expired''"
| "reason _ = None"

subsection \<open>\<open>start_game\<close>\<close>

definition start_game :: "string \<Rightarrow> string \<Rightarrow> world \<Rightarrow> response \<times> world" where
  "start_game d m w =
     (if d \<notin> set [''easy'', ''medium'', ''hard''] then ((400, Error ''Invalid difficulty''), w)
      else if m \<notin> set [''classic'', ''timed'', ''streak'']
        then ((400, Error ''Invalid game mode''), w)
      else
        (case map_of web_game_config d of
           None \<Rightarrow> ((500, Error ''Failed to start game''), w)
         | Some c \<Rightarrow>
             let cfg = add_mode_config m c;
                 (now, w1) = time_time w
             in ((200, Started cfg (''Started '' @ d @ '' '' @ m @ '' game!'')),
                 w1\<lparr>session := Some
                   \<lparr>game_active = True, difficulty = d, game_mode = m, config = cfg,
                    wins = 0, losses = 0, start_time = now, round_number = 1\<rparr>\<rparr>)))"

subsection \<open>\<open>play_round\<close>\<close>

text \<open>
  Lines 124 to 141 and 149 to 166: the game is switched off, the duration is taken, the
  session is saved, and the final outcome is reported. An exception of the store leaves
  through the handler's \<open>except Exception\<close>, which answers 500.
\<close>

definition finish_game ::
  "game_session \<Rightarrow> bool \<Rightarrow> string \<Rightarrow> string \<Rightarrow> string \<Rightarrow> world \<Rightarrow> response \<times> world" where
  "finish_game s won_round prize_cup prize why w =
     (let s1 = s\<lparr>game_active := False\<rparr>;
          (now, w1) = time_time (w\<lparr>session := Some s1\<rparr>);
          duration = now - start_time s1;
          (err, w2) = save_game_session (difficulty s1) (game_mode s1) (wins s1) (losses s1)
                        (Some duration) w1
      in case err of
           Some e \<Rightarrow> ((500, Error ''Failed to play round''), w2)
         | None \<Rightarrow>
             ((200, RoundOver won_round prize_cup prize why (wins s1) (losses s1) duration),
              w2))"

text \<open>
  Lines 143 to 185, after the score is updated and the streak rule did not end the game:
  the round number is incremented, then the maximum of rounds is tested, then the
  remaining time of a timed game is computed.
\<close>

definition next_round ::
  "game_session \<Rightarrow> bool \<Rightarrow> string \<Rightarrow> string \<Rightarrow> world \<Rightarrow> response \<times> world" where
  "next_round s won_round prize_cup prize w =
     (let s1 = s\<lparr>round_number := round_number s + 1\<rparr>;
          cfg = config s1
      in if max_rounds_reached cfg (wins s1 + losses s1)
         then finish_game s1 won_round prize_cup prize ''Max rounds completed'' w
         else
           let (time_remaining, w1) =
                 (if game_mode s1 = ''timed''
                  then let (now, w') = time_time w
                       in (Some (max 0 (real_of_int (get_time_limit cfg) - (now - start_time s1))),
                           w')
                  else (None, w))
           in ((200, RoundPlayed won_round prize_cup prize (wins s1) (losses s1)
                       (round_number s1) time_remaining (shuffle_time cfg)),
               w1\<lparr>session := Some s1\<rparr>))"

text \<open>
  Lines 104 to 141: the winning cup and the prize are drawn, the choice is compared and
  the score updated; in streak mode a lost round ends the game.
\<close>

definition draw_and_score :: "game_session \<Rightarrow> string \<Rightarrow> world \<Rightarrow> response \<times> world" where
  "draw_and_score s user_choice w =
     (case random_choice (cups (config s)) w of
        (Inl e, w1) \<Rightarrow> ((500, Error ''Failed to play round''), w1)
      | (Inr prize_cup, w1) \<Rightarrow>
          (case random_choice prizes w1 of
             (Inl e, w2) \<Rightarrow> ((500, Error ''Failed to play round''), w2)
           | (Inr prize, w2) \<Rightarrow>
               let won_round = (user_choice = prize_cup)
               in if won_round
                  then next_round (s\<lparr>wins := wins s + 1\<rparr>) won_round prize_cup prize w2
                  else
                    let s1 = s\<lparr>losses := losses s + 1\<rparr>
                    in if game_mode s1 = ''streak''
                       then finish_game s1 False prize_cup prize ''Streak broken'' w2
                       else next_round s1 won_round prize_cup prize w2))"

text \<open>
  The handler: no active game, then the validation of the choice (lower-cased, then
  stripped), then the time limit of a timed game, then the round.
\<close>

definition play_round :: "string \<Rightarrow> world \<Rightarrow> response \<times> world" where
  "play_round choice w =
     (case session w of
        None \<Rightarrow> ((400, Error ''No active game''), w)
      | Some s \<Rightarrow>
          if \<not> game_active s then ((400, Error ''No active game''), w)
          else
            let user_choice = strip (lower choice);
                cfg = config s
            in if user_choice \<notin> set (cups cfg) then ((400, Error ''Invalid cup choice''), w)
               else if game_mode s = ''timed''
               then
                 let (now, w1) = time_time w;
                     elapsed = now - start_time s
                 in if real_of_int (get_time_limit cfg) \<le> elapsed
                    then ((200, TimeOver (wins s) (losses s)),
                          w1\<lparr>session := Some (s\<lparr>game_active := False\<rparr>)\<rparr>)
                    else draw_and_score s user_choice w1
               else draw_and_score s user_choice w)"

subsection \<open>\<open>end_game\<close>\<close>

definition end_game :: "world \<Rightarrow> response \<times> world" where
  "end_game w =
     (case session w of
        None \<Rightarrow> ((400, Error ''No active game''), w)
      | Some s \<Rightarrow>
          if \<not> game_active s then ((400, Error ''No active game''), w)
          else
            let (now, w1) = time_time w;
                duration = now - start_time s;
                (err, w2) = save_game_session (difficulty s) (game_mode s) (wins s) (losses s)
                              (Some duration) w1
            in case err of
                 Some e \<Rightarrow> ((500, Error ''Failed to end game''), w2)
               | None \<Rightarrow>
                   ((200, Ended (wins s) (losses s) duration),
                    w2\<lparr>session := Some (s\<lparr>game_active := False\<rparr>)\<rparr>))"

subsection \<open>\<open>get_game_status\<close>\<close>

definition get_game_status :: "world \<Rightarrow> response \<times> world" where
  "get_game_status w =
     (case session w of
        None \<Rightarrow> ((200, StatusInactive), w)
      | Some s \<Rightarrow>
          if \<not> game_active s then ((200, StatusInactive), w)
          else if game_mode s = ''timed''
          then
            let (now, w1) = time_time w;
                elapsed = now - start_time s;
                time_remaining = max 0 (real_of_int (get_time_limit (config s)) - elapsed)
            in if time_remaining \<le> 0
               then
                 let s1 = s\<lparr>game_active := False\<rparr>;
                     (now2, w2) = time_time (w1\<lparr>session := Some s1\<rparr>);
                     duration = now2 - start_time s1;
                     (err, w3) = save_game_session (difficulty s1) (game_mode s1) (wins s1)
                                   (losses s1) (Some duration) w2
                 in case err of
                      Some e \<Rightarrow> ((500, Error ''Failed to get game status''), w3)
                    | None \<Rightarrow> ((200, StatusExpired), w3)
               else ((200, StatusActive (difficulty s) (game_mode s) (wins s) (losses s)
                             (round_number s) (Some time_remaining) (config s)), w1)
          else ((200, StatusActive (difficulty s) (game_mode s) (wins s) (losses s)
                        (round_number s) None (config s)), w))"

subsection \<open>Sequences of requests\<close>

datatype request =
    StartGame string string
  | PlayRound string
  | EndGame
  | GameStatus

fun handle :: "request \<Rightarrow> world \<Rightarrow> response \<times> world" where
  "handle (StartGame d m) w = start_game d m w"
| "handle (PlayRound choice) w = play_round choice w"
| "handle EndGame w = end_game w"
| "handle GameStatus w = get_game_status w"

fun is_start :: "request \<Rightarrow> bool" where
  "is_start (StartGame d m) = True"
| "is_start _ = False"

text \<open>The world after a list of requests, served one after the other.\<close>

fun serve :: "request list \<Rightarrow> world \<Rightarrow> world" where
  "serve [] w = w"
| "serve (r # rs) w = serve rs (snd (handle r w))"

section \<open>The terminal game (cup_game_enhanced.py, Cup_Game.py)\<close>

text \<open>
  The attributes of a \<open>CupGame\<close> object that the rounds read and write. Printing, logging,
  \<open>time.sleep\<close>, the creation of the database file in \<open>__init__\<close> and an interrupt from
  the keyboard are not modelled. The terminal adds the lines still to be typed to the
  environment; \<open>input()\<close> raises \<open>EOFError\<close> when none is left.
\<close>

record cup_game =
  self_difficulty :: difficulty
  self_game_mode :: game_mode
  self_wins :: int
  self_losses :: int
  self_start_time :: "real option"
  self_config :: game_config

record terminal = env +
  stdin :: "string list"

text \<open>\<open>CupGame.__init__\<close>\<close>

definition new_cup_game :: "difficulty \<Rightarrow> game_mode \<Rightarrow> cup_game" where
  "new_cup_game d m =
     \<lparr>self_difficulty = d, self_game_mode = m, self_wins = 0, self_losses = 0,
      self_start_time = None, self_config = get_game_config d m\<rparr>"

text \<open>\<open>CupGame.validate_choice\<close> of cup_game_enhanced.py: lower-cased, not stripped.\<close>

definition validate_choice :: "cup_game \<Rightarrow> string \<Rightarrow> bool" where
  "validate_choice self choice = (lower choice \<in> set (cups (self_config self)))"

text \<open>\<open>CupGame.validate_choice\<close> of Cup_Game.py, on its fixed three cups.\<close>

definition choices :: "string list" where
  "choices = [''left'', ''middle'', ''right'']"

definition validate_choice_orig :: "string \<Rightarrow> bool" where
  "validate_choice_orig choice = (choice \<in> set choices)"

text \<open>
  Lines 237 to 241: a line is read, lower-cased and stripped, and read again while it is
  not valid. The result is the accepted choice with the lines left, or \<open>None\<close> when
  \<open>input()\<close> raised \<open>EOFError\<close>.
\<close>

fun read_choice :: "cup_game \<Rightarrow> string list \<Rightarrow> string option \<times> string list" where
  "read_choice self [] = (None, [])"
| "read_choice self (line # rest) =
     (let user_choice = strip (lower line)
      in if validate_choice self user_choice then (Some user_choice, rest)
         else read_choice self rest)"

text \<open>Lines 263 to 269: whether the game goes on after a scored round.\<close>

definition check_max_rounds :: "cup_game \<Rightarrow> bool \<times> cup_game" where
  "check_max_rounds self =
     (if max_rounds_reached (self_config self) (self_wins self + self_losses self)
      then (False, self) else (True, self))"

text \<open>Lines 247 to 269: the score is updated; in streak mode a lost round ends the game.\<close>

definition score_round :: "cup_game \<Rightarrow> string \<Rightarrow> string \<Rightarrow> bool \<times> cup_game" where
  "score_round self user_choice prize_cup =
     (if user_choice = prize_cup
      then check_max_rounds (self\<lparr>self_wins := self_wins self + 1\<rparr>)
      else
        let self1 = self\<lparr>self_losses := self_losses self + 1\<rparr>
        in if self_game_mode self1 = STREAK then (False, self1)
           else check_max_rounds self1)"

text \<open>
  Lines 233 to 269: the winning cup and the prize are drawn first, then the choice is
  read. Any exception ends the round with \<open>False\<close>.
\<close>

definition draw_and_read :: "cup_game \<Rightarrow> terminal \<Rightarrow> bool \<times> cup_game \<times> terminal" where
  "draw_and_read self t =
     (case random_choice (cups (self_config self)) t of
        (Inl e, t1) \<Rightarrow> (False, self, t1)
      | (Inr prize_cup, t1) \<Rightarrow>
          (case random_choice prizes t1 of
             (Inl e, t2) \<Rightarrow> (False, self, t2)
           | (Inr prize, t2) \<Rightarrow>
               (case read_choice self (stdin t2) of
                  (None, rest) \<Rightarrow> (False, self, t2\<lparr>stdin := rest\<rparr>)
                | (Some user_choice, rest) \<Rightarrow>
                    let (go_on, self1) = score_round self user_choice prize_cup
                    in (go_on, self1, t2\<lparr>stdin := rest\<rparr>))))"

text \<open>
  \<open>CupGame.play_round\<close>: \<open>True\<close> when the game should continue. In timed mode the clock
  is read first; a start time that was never set makes the subtraction raise
  \<open>TypeError\<close>, which ends the round like every exception.
\<close>

definition play_round_cli :: "cup_game \<Rightarrow> terminal \<Rightarrow> bool \<times> cup_game \<times> terminal" where
  "play_round_cli self t =
     (if self_game_mode self = TIMED
      then
        let (now, t1) = time_time t
        in case self_start_time self of
             None \<Rightarrow> (False, self, t1)
           | Some started \<Rightarrow>
               if real_of_int (get_time_limit (self_config self)) \<le> now - started
               then (False, self, t1)
               else draw_and_read self t1
      else draw_and_read self t)"

text \<open>
  \<open>CupGame.show_summary\<close>: the duration is taken when the start time is set (and not
  zero), the session is saved, and an exception of the store is logged and dropped.
\<close>

definition show_summary :: "cup_game \<Rightarrow> terminal \<Rightarrow> terminal" where
  "show_summary self t =
     (let (duration, t1) =
            (case self_start_time self of
               None \<Rightarrow> (None, t)
             | Some started \<Rightarrow>
                 if started = 0 then (None, t)
                 else let (now, t') = time_time t in (Some (now - started), t'))
      in snd (save_game_session (difficulty_value (self_difficulty self))
                (game_mode_value (self_game_mode self)) (self_wins self) (self_losses self)
                duration t1))"

text \<open>
  The loop of \<open>CupGame.run\<close> (lines 349 to 356): rounds are played until one returns
  \<open>False\<close>; in classic mode the player is asked after each round and any answer but
  \<open>y\<close> (lower-cased and stripped) ends the loop. An \<open>EOFError\<close> of that prompt leaves
  the loop as an exception; \<open>run\<close> then skips \<open>show_summary\<close>. The loop ends because every
  round that returns \<open>True\<close> has read a line.
\<close>

function game_loop :: "cup_game \<Rightarrow> terminal \<Rightarrow> exn option \<times> cup_game \<times> terminal" where
  "game_loop self t =
     (case play_round_cli self t of
        (False, self1, t1) \<Rightarrow> (None, self1, t1)
      | (True, self1, t1) \<Rightarrow>
          if self_game_mode self1 = CLASSIC
          then (case stdin t1 of
                  [] \<Rightarrow> (Some EOFError, self1, t1)
                | again # rest \<Rightarrow>
                    if strip (lower again) \<noteq> ''y'' then (None, self1, t1\<lparr>stdin := rest\<rparr>)
                    else game_loop self1 (t1\<lparr>stdin := rest\<rparr>))
          else game_loop self1 t1)"
  by pat_completeness auto
termination
proof -
  have rc: "length rest < length ls" if "read_choice self ls = (Some c, rest)"
    for self ls c rest
    using that
    by (induction ls) (auto simp: Let_def split: if_splits)
  have dr: "length (stdin t1) < length (stdin t)" if "draw_and_read self t = (True, self1, t1)"
    for self t self1 t1
    using that
    by (auto simp: draw_and_read_def random_choice_def split: prod.splits sum.splits
        option.splits if_splits dest: rc)
  have pr: "length (stdin t1) < length (stdin t)" if "(True, self1, t1) = play_round_cli self t"
    for self t self1 t1
    using that[symmetric] dr[of self t self1 t1]
      dr[of self "t\<lparr>clock := stl (clock t)\<rparr>" self1 t1]
    by (auto simp: play_round_cli_def time_time_def Let_def split: option.splits if_splits)
  show ?thesis
    by (relation "measure (\<lambda>(self, t). length (stdin t))") (auto dest: pr)
qed

declare game_loop.simps [simp del]

section \<open>Notions used in the statements\<close>

text \<open>The key \<open>won_round\<close> of a body, where it has it.\<close>

fun won_round :: "body \<Rightarrow> bool option" where
  "won_round (RoundOver won cup prize r w l d) = Some won"
| "won_round (RoundPlayed won cup prize w l n t sh) = Some won"
| "won_round _ = None"



text \<open>
  A running easy game of the given mode, started at second 100 with two rounds won, and a
  world around it: nothing stored yet, a store that always fails or never does, a random
  source that always gives 1 (the right cup, the Ferrari), and a clock that stands at the
  given second.
\<close>

definition running_session :: "string \<Rightarrow> game_session" where
  "running_session m =
     \<lparr>game_active = True, difficulty = ''easy'', game_mode = m,
      config = add_mode_config m
        \<lparr>cups = [''left'', ''right''], shuffle_time = 2.0, max_rounds = None, time_limit = None\<rparr>,
      wins = 2, losses = 0, start_time = 100, round_number = 3\<rparr>"

definition running_world :: "string \<Rightarrow> real \<Rightarrow> bool \<Rightarrow> world" where
  "running_world m now fault =
     \<lparr>db_rows = [], db_faults = sconst fault, rng = sconst 1, clock = sconst now,
      session = Some (running_session m)\<rparr>"

section \<open>Facts about the string functions\<close>

lemma py_isupper_lower_char: "\<not> py_isupper (lower_char c)"
proof (cases c)
  case (Char b0 b1 b2 b3 b4 b5 b6 b7)
  show ?thesis unfolding Char
    by (cases b0; cases b1; cases b2; cases b3; cases b4; cases b5; cases b6; cases b7;
        simp add: py_isupper_def)
qed

lemma lower_char_fix: "\<not> py_isupper c \<Longrightarrow> lower_char c = c"
  by (cases c) simp

lemma lower_char_idem: "lower_char (lower_char c) = lower_char c"
  by (simp add: lower_char_fix py_isupper_lower_char)

lemma lower_idem: "lower (lower s) = lower s"
  by (simp add: lower_def lower_char_idem)

lemma set_strip: "set (strip s) \<subseteq> set s"
proof -
  have "set (strip s) \<subseteq> set (dropWhile py_isspace s)"
    unfolding strip_def using set_dropWhileD by fastforce
  also have "\<dots> \<subseteq> set s"
    using set_dropWhileD by fastforce
  finally show ?thesis .
qed

text \<open>Lower-casing a string that was lower-cased and stripped changes nothing.\<close>

lemma lower_strip_lower: "lower (strip (lower s)) = strip (lower s)"
proof -
  have "\<forall>c \<in> set (strip (lower s)). lower_char c = c"
    using set_strip[of "lower s"] by (auto simp: lower_def lower_char_idem)
  then show ?thesis
    unfolding lower_def[of "strip (lower s)"] by (simp add: map_idI)
qed

section \<open>Configuration derivation\<close>

lemma config_cups:
  "cups (get_game_config d m) = cups (configs d)"
  "shuffle_time (get_game_config d m) = shuffle_time (configs d)"
  by (simp_all add: get_game_config_def)

lemma start_game_valid:
  "start_game (difficulty_value d) (game_mode_value m) w =
     ((200, Started (get_game_config d m)
            (''Started '' @ difficulty_value d @ '' '' @ game_mode_value m @ '' game!'')),
      w\<lparr>clock := stl (clock w), session := Some
                   \<lparr>game_active = True, difficulty = difficulty_value d,
                    game_mode = game_mode_value m, config = get_game_config d m,
                    wins = 0, losses = 0, start_time = shd (clock w), round_number = 1\<rparr>\<rparr>)"
proof -
  have web: "map_of web_game_config (difficulty_value d) = Some (configs d)"
    by (cases d) (simp_all add: web_game_config_def)
  have mode: "add_mode_config (game_mode_value m) (configs d) = get_game_config d m"
    by (cases m) (simp_all add: add_mode_config_def get_game_config_def)
  have dv: "difficulty_value d \<in> set [''easy'', ''medium'', ''hard'']"
    by (cases d) simp_all
  have mv: "game_mode_value m \<in> set [''classic'', ''timed'', ''streak'']"
    by (cases m) simp_all
  show ?thesis
    unfolding start_game_def using dv mv
    by (simp add: web mode time_time_def Let_def del: set_simps)
qed

text \<open>
  C6. The configuration is a function of the difficulty and the mode alone: easy has the
  two cups left and right and a shuffle time of 2.0 seconds, medium the three cups left,
  middle and right and 1.5 seconds, hard the four cups left, middle-left, middle-right and
  right and 1.0 second; the cup names of every configuration are distinct; timed mode sets
  the time limit to 30 and no maximum of rounds, streak mode sets the maximum of rounds to
  10 and no time limit, classic mode sets neither. The web \<open>start_game\<close>, called with the
  string values of the difficulty and the mode, answers and stores that same
  configuration.
\<close>

theorem config_derivation:
  "cups (get_game_config EASY m) = [''left'', ''right'']
   \<and> shuffle_time (get_game_config EASY m) = 2.0
   \<and> cups (get_game_config MEDIUM m) = [''left'', ''middle'', ''right'']
   \<and> shuffle_time (get_game_config MEDIUM m) = 1.5
   \<and> cups (get_game_config HARD m) = [''left'', ''middle-left'', ''middle-right'', ''right'']
   \<and> shuffle_time (get_game_config HARD m) = 1.0
   \<and> distinct (cups (get_game_config d m))
   \<and> time_limit (get_game_config d TIMED) = Some 30
   \<and> max_rounds (get_game_config d TIMED) = None
   \<and> max_rounds (get_game_config d STREAK) = Some 10
   \<and> time_limit (get_game_config d STREAK) = None
   \<and> time_limit (get_game_config d CLASSIC) = None
   \<and> max_rounds (get_game_config d CLASSIC) = None
   \<and> fst (start_game (difficulty_value d) (game_mode_value m) w)
       = (200, Started (get_game_config d m)
            (''Started '' @ difficulty_value d @ '' '' @ game_mode_value m @ '' game!''))
   \<and> map_option config (session (snd (start_game (difficulty_value d) (game_mode_value m) w)))
       = Some (get_game_config d m)"
proof -
  have dist: "distinct (cups (configs d))"
    by (cases d) simp_all
  have tl: "time_limit (get_game_config d TIMED) = Some 30"
    "max_rounds (get_game_config d TIMED) = None"
    "max_rounds (get_game_config d STREAK) = Some 10"
    "time_limit (get_game_config d STREAK) = None"
    "time_limit (get_game_config d CLASSIC) = None"
    "max_rounds (get_game_config d CLASSIC) = None"
    by (cases d; simp add: get_game_config_def)+
  show ?thesis
    using dist tl by (simp add: config_cups start_game_valid)
qed

section \<open>Choice validation\<close>

text \<open>An accepted choice is never answered with status 400.\<close>

lemma play_round_valid_not_400:
  assumes "session w = Some s" "game_active s" "strip (lower choice) \<in> set (cups (config s))"
  shows "fst (fst (play_round choice w)) \<noteq> 400"
  using assms
  by (auto simp: play_round_def draw_and_score_def next_round_def finish_game_def
      time_time_def random_choice_def save_game_session_def Let_def
      split: prod.splits sum.splits option.splits if_splits)

lemma play_round_invalid:
  assumes "session w = Some s" "game_active s" "strip (lower choice) \<notin> set (cups (config s))"
  shows "play_round choice w = ((400, Error ''Invalid cup choice''), w)"
  using assms by (simp add: play_round_def Let_def)

lemma play_round_inactive:
  assumes "session w = None \<or> (\<exists>s. session w = Some s \<and> \<not> game_active s)"
  shows "play_round choice w = ((400, Error ''No active game''), w)"
  using assms by (auto simp add: play_round_def)

lemma read_choice_step:
  "read_choice self (line # rest) =
       (if strip (lower line) \<in> set (cups (self_config self))
        then (Some (strip (lower line)), rest) else read_choice self rest)"
  by (simp add: validate_choice_def lower_strip_lower Let_def)

text \<open>
  C3, as stated, fails: \<open>validate_choice\<close> lower-cases its argument and does not trim
  it, so under the easy configuration \<open>"  LEFT "\<close> is rejected while \<open>"left"\<close> is
  accepted.
\<close>

theorem validate_choice_untrimmed:
  "\<not> validate_choice (new_cup_game EASY CLASSIC) ''  LEFT ''
   \<and> validate_choice (new_cup_game EASY CLASSIC) ''left''"
  by (simp add: validate_choice_def new_cup_game_def get_game_config_def lower_def py_isupper_def)

text \<open>
  C3, amended. \<open>validate_choice\<close> is insensitive to case and tests membership in the
  cup names of the configuration, without trimming. The trimming is done by its callers:
  the terminal prompt accepts a line exactly when the line, lower-cased and stripped, is a
  cup name, and the web \<open>play_round\<close> answers "Invalid cup choice" on an active session
  exactly when the choice, lower-cased and stripped, is not a cup name. Under the easy
  configuration \<open>"LEFT"\<close> and \<open>"left"\<close> are valid, \<open>"middle"\<close> and \<open>"  LEFT "\<close> are
  not, and the prompt accepts the line \<open>"  LEFT "\<close> as the choice \<open>"left"\<close>. The
  \<open>validate_choice\<close> of Cup_Game.py tests the string as it is given against its three
  cups: \<open>"left"\<close> is valid, \<open>"LEFT"\<close> and \<open>" left "\<close> are not.
\<close>

theorem choice_validation:
  "validate_choice self (lower choice) = validate_choice self choice
   \<and> read_choice self (line # rest) =
       (if strip (lower line) \<in> set (cups (self_config self))
        then (Some (strip (lower line)), rest) else read_choice self rest)
   \<and> (session w = Some s \<and> game_active s \<longrightarrow>
        (play_round choice w = ((400, Error ''Invalid cup choice''), w))
          = (strip (lower choice) \<notin> set (cups (config s))))
   \<and> validate_choice (new_cup_game EASY m) ''LEFT''
   \<and> validate_choice (new_cup_game EASY m) ''left''
   \<and> \<not> validate_choice (new_cup_game EASY m) ''middle''
   \<and> \<not> validate_choice (new_cup_game EASY m) ''  LEFT ''
   \<and> fst (read_choice (new_cup_game EASY m) (''  LEFT '' # rest)) = Some ''left''
   \<and> validate_choice_orig ''left''
   \<and> \<not> validate_choice_orig ''LEFT''
   \<and> \<not> validate_choice_orig '' left ''"
proof -
  have a: "validate_choice self (lower choice) = validate_choice self choice"
    by (simp add: validate_choice_def lower_idem)
  have b: "read_choice self (line # rest) =
       (if strip (lower line) \<in> set (cups (self_config self))
        then (Some (strip (lower line)), rest) else read_choice self rest)"
    by (rule read_choice_step)
  have c: "session w = Some s \<and> game_active s \<longrightarrow>
        (play_round choice w = ((400, Error ''Invalid cup choice''), w))
          = (strip (lower choice) \<notin> set (cups (config s)))"
    using play_round_valid_not_400[of w s choice] play_round_invalid[of w s choice]
    by (cases "strip (lower choice) \<in> set (cups (config s))") auto
  have cfg: "cups (self_config (new_cup_game EASY m)) = [''left'', ''right'']"
    by (simp add: new_cup_game_def config_cups)
  have d: "validate_choice (new_cup_game EASY m) ''LEFT''"
    "validate_choice (new_cup_game EASY m) ''left''"
    "\<not> validate_choice (new_cup_game EASY m) ''middle''"
    "\<not> validate_choice (new_cup_game EASY m) ''  LEFT ''"
    by (simp_all add: validate_choice_def cfg lower_def py_isupper_def)
  have e: "strip (lower ''  LEFT '') = ''left''"
    by (simp add: strip_def lower_def py_isupper_def py_isspace_def)
  have f: "fst (read_choice (new_cup_game EASY m) (''  LEFT '' # rest)) = Some ''left''"
    by (simp only: read_choice_step e cfg) simp
  have g: "validate_choice_orig ''left''" "\<not> validate_choice_orig ''LEFT''"
    "\<not> validate_choice_orig '' left ''"
    by (simp_all add: validate_choice_orig_def choices_def)
  show ?thesis using a b c d f g by blast
qed

theorem choice_validation_witness:
  "validate_choice (new_cup_game MEDIUM CLASSIC) ''Middle''
   \<and> play_round '' Right  ''
       \<lparr>db_rows = [], db_faults = sconst False, rng = sconst 0, clock = sconst 5,
        session = Some \<lparr>game_active = True, difficulty = ''easy'', game_mode = ''classic'',
          config = get_game_config EASY CLASSIC, wins = 0, losses = 0, start_time = 0,
          round_number = 1\<rparr>\<rparr>
      \<noteq> ((400, Error ''Invalid cup choice''),
       \<lparr>db_rows = [], db_faults = sconst False, rng = sconst 0, clock = sconst 5,
        session = Some \<lparr>game_active = True, difficulty = ''easy'', game_mode = ''classic'',
          config = get_game_config EASY CLASSIC, wins = 0, losses = 0, start_time = 0,
          round_number = 1\<rparr>\<rparr>)"
proof -
  have e: "strip (lower '' Right  '') = ''right''"
    by (simp add: strip_def lower_def py_isupper_def py_isspace_def)
  have e2: "lower ''Middle'' = ''middle''" "lower ''middle'' = ''middle''"
    by (simp_all add: lower_def py_isupper_def)
  have v: "validate_choice (new_cup_game MEDIUM CLASSIC) ''middle''"
    by (simp add: validate_choice_def e2 new_cup_game_def config_cups)
  show ?thesis
    using choice_validation[where self="new_cup_game MEDIUM CLASSIC" and choice="''Middle''"]
      choice_validation[where w="\<lparr>db_rows = [], db_faults = sconst False, rng = sconst 0, clock = sconst 5,
        session = Some \<lparr>game_active = True, difficulty = ''easy'', game_mode = ''classic'',
          config = get_game_config EASY CLASSIC, wins = 0, losses = 0, start_time = 0,
          round_number = 1\<rparr>\<rparr>"
      and s="\<lparr>game_active = True, difficulty = ''easy'', game_mode = ''classic'',
          config = get_game_config EASY CLASSIC, wins = 0, losses = 0, start_time = 0,
          round_number = 1\<rparr>" and choice="'' Right  ''"] v
    by (simp add: e e2 config_cups)
qed

section \<open>Starting a game\<close>

lemma difficulty_cases:
  "d \<in> set [''easy'', ''medium'', ''hard''] \<Longrightarrow> \<exists>c. map_of web_game_config d = Some c"
  by (auto simp: web_game_config_def)

text \<open>
  C10. For every call of \<open>start_game\<close> with a valid difficulty and a valid mode, whatever
  the session of the caller holds (nothing, a finished game, a game in progress), the
  session is written anew: active, the given difficulty and mode with their
  configuration, no wins, no losses, the start time just read from the clock, round 1. The
  call stores no record, and the world after it is the same whatever the session held
  before, so nothing that is served later can store the score of the discarded game.
\<close>

theorem start_game_reinitializes:
  assumes "d \<in> set [''easy'', ''medium'', ''hard'']"
    and "m \<in> set [''classic'', ''timed'', ''streak'']"
  shows "\<exists>c. map_of web_game_config d = Some c
       \<and> start_game d m w =
           ((200, Started (add_mode_config m c) (''Started '' @ d @ '' '' @ m @ '' game!'')),
            w\<lparr>clock := stl (clock w),
              session := Some
                \<lparr>game_active = True, difficulty = d, game_mode = m,
                 config = add_mode_config m c, wins = 0, losses = 0,
                 start_time = shd (clock w), round_number = 1\<rparr>\<rparr>)
       \<and> db_rows (snd (start_game d m w)) = db_rows w
       \<and> snd (start_game d m (w\<lparr>session := old\<rparr>)) = snd (start_game d m w)
       \<and> serve rs (snd (start_game d m (w\<lparr>session := old\<rparr>))) = serve rs (snd (start_game d m w))"
proof -
  obtain c where c: "map_of web_game_config d = Some c"
    using difficulty_cases[OF assms(1)] by blast
  have eq: "\<And>v. start_game d m v =
           ((200, Started (add_mode_config m c) (''Started '' @ d @ '' '' @ m @ '' game!'')),
            v\<lparr>clock := stl (clock v),
              session := Some
                \<lparr>game_active = True, difficulty = d, game_mode = m,
                 config = add_mode_config m c, wins = 0, losses = 0,
                 start_time = shd (clock v), round_number = 1\<rparr>\<rparr>)"
    unfolding start_game_def using assms c
    by (simp add: time_time_def Let_def del: set_simps)
  have same: "snd (start_game d m (w\<lparr>session := old\<rparr>)) = snd (start_game d m w)"
    by (simp add: eq)
  show ?thesis
    using c by (simp add: eq)
qed

theorem start_game_reinitializes_witness:
  "session (snd (start_game ''hard'' ''timed'' (running_world ''streak'' 250 False)))
     = Some \<lparr>game_active = True, difficulty = ''hard'', game_mode = ''timed'',
         config = \<lparr>cups = [''left'', ''middle-left'', ''middle-right'', ''right''],
                   shuffle_time = 1.0, max_rounds = None, time_limit = Some 30\<rparr>,
         wins = 0, losses = 0, start_time = 250, round_number = 1\<rparr>
   \<and> db_rows (snd (start_game ''hard'' ''timed'' (running_world ''streak'' 250 False))) = []"
proof -
  have c: "map_of web_game_config ''hard'' =
    Some \<lparr>cups = [''left'', ''middle-left'', ''middle-right'', ''right''],
                   shuffle_time = 1.0, max_rounds = None, time_limit = None\<rparr>"
    by (simp add: web_game_config_def)
  have d: "''hard'' \<in> set [''easy'', ''medium'', ''hard'']" by simp
  have m: "''timed'' \<in> set [''classic'', ''timed'', ''streak'']" by simp
  show ?thesis
    using start_game_reinitializes[OF d m, of "running_world ''streak'' 250 False" None "[]"]
    by (auto simp: c add_mode_config_def running_world_def)
qed

section \<open>Rejected choices\<close>

lemma read_choice_rejected:
  "strip (lower line) \<notin> set (cups (self_config self))
   \<Longrightarrow> read_choice self (line # rest) = read_choice self rest"
  by (simp add: read_choice_step del: read_choice.simps)

lemma draw_and_read_no_choice:
  "fst (read_choice self (stdin t)) = None \<Longrightarrow> fst (snd (draw_and_read self t)) = self"
  by (auto simp: draw_and_read_def random_choice_def split: prod.splits sum.splits option.splits)

lemma play_round_cli_no_choice:
  "fst (read_choice self (stdin t)) = None \<Longrightarrow> fst (snd (play_round_cli self t)) = self"
  using draw_and_read_no_choice[of self "t\<lparr>clock := stl (clock t)\<rparr>"]
    draw_and_read_no_choice[of self t]
  by (auto simp: play_round_cli_def time_time_def Let_def split: option.splits)

text \<open>
  C7. A choice that, lower-cased and stripped, is not a cup name of the session's
  configuration is rejected by the web \<open>play_round\<close> with status 400 ("Invalid cup
  choice" on an active game, "No active game" otherwise), and the world is left as it was:
  score, session, random source, clock and store. In the terminal such a line is
  dropped and the next one is read, with the cup and the prize drawn before the prompt
  kept; a round in which no line is accepted leaves the game object unchanged.
\<close>

theorem invalid_choice_rejected:
  "(session w = Some s \<and> strip (lower choice) \<notin> set (cups (config s))
      \<longrightarrow> play_round choice w =
            ((400, Error (if game_active s then ''Invalid cup choice'' else ''No active game'')),
             w))
   \<and> (session w = None \<longrightarrow> play_round choice w = ((400, Error ''No active game''), w))
   \<and> (strip (lower line) \<notin> set (cups (self_config self))
      \<longrightarrow> read_choice self (line # rest) = read_choice self rest)
   \<and> (fst (read_choice self (stdin t)) = None
      \<longrightarrow> fst (snd (play_round_cli self t)) = self)"
  using play_round_invalid[of w s choice] play_round_inactive[of w choice]
    read_choice_rejected[of line self rest] play_round_cli_no_choice[of self t]
  by auto

theorem invalid_choice_rejected_witness:
  "play_round ''middle'' (running_world ''timed'' 135 False)
     = ((400, Error ''Invalid cup choice''), running_world ''timed'' 135 False)
   \<and> read_choice (new_cup_game EASY CLASSIC) [''middle'', ''LEFT'']
     = read_choice (new_cup_game EASY CLASSIC) [''LEFT'']
   \<and> fst (snd (play_round_cli (new_cup_game EASY CLASSIC)
        \<lparr>db_rows = [], db_faults = sconst False, rng = sconst 1, clock = sconst 5,
         stdin = [''middle'']\<rparr>)) = new_cup_game EASY CLASSIC"
proof -
  have e: "strip (lower ''middle'') = ''middle''"
    by (simp add: strip_def lower_def py_isupper_def py_isspace_def)
  have s: "session (running_world ''timed'' 135 False) = Some (running_session ''timed'')"
    by (simp add: running_world_def)
  have c: "cups (config (running_session ''timed'')) = [''left'', ''right'']"
    by (simp add: running_session_def add_mode_config_def)
  have a: "game_active (running_session ''timed'')"
    by (simp add: running_session_def)
  have g: "cups (self_config (new_cup_game EASY CLASSIC)) = [''left'', ''right'']"
    by (simp add: new_cup_game_def config_cups)
  have r: "fst (read_choice (new_cup_game EASY CLASSIC) [''middle'']) = None"
    by (simp add: read_choice_step e g del: read_choice.simps(2))
  show ?thesis
    using invalid_choice_rejected[where w="running_world ''timed'' 135 False"
        and s="running_session ''timed''" and choice="''middle''" and line="''middle''"
        and self="new_cup_game EASY CLASSIC" and rest="[''LEFT'']"
        and t="\<lparr>db_rows = [], db_faults = sconst False, rng = sconst 1, clock = sconst 5,
         stdin = [''middle'']\<rparr>"]
    by (simp add: e s c a g r del: read_choice.simps(2))
qed

section \<open>The time limit\<close>

lemma play_round_time_over:
  assumes "session w = Some s" "game_active s" "game_mode s = ''timed''"
    "real_of_int (get_time_limit (config s)) \<le> shd (clock w) - start_time s"
    "strip (lower choice) \<in> set (cups (config s))"
  shows "play_round choice w =
           ((200, TimeOver (wins s) (losses s)),
            w\<lparr>clock := stl (clock w), session := Some (s\<lparr>game_active := False\<rparr>)\<rparr>)"
  using assms by (simp add: play_round_def time_time_def Let_def)

lemma play_round_cli_time_over:
  assumes "self_game_mode self = TIMED" "self_start_time self = Some started"
    "real_of_int (get_time_limit (self_config self)) \<le> shd (clock t) - started"
  shows "play_round_cli self t = (False, self, t\<lparr>clock := stl (clock t)\<rparr>)"
  using assms by (simp add: play_round_cli_def time_time_def Let_def)

text \<open>
  C2, as stated, fails for the web front end: the choice is validated before the time
  limit is looked at. Here the game is active and timed, it started at second 100 with a
  limit of 30, the clock reads 135, and the choice \<open>"middle"\<close> is no cup of the easy
  configuration: the answer is "Invalid cup choice" and the game stays active.
\<close>

theorem expired_game_validates_first:
  "play_round ''middle'' (running_world ''timed'' 135 False)
     = ((400, Error ''Invalid cup choice''), running_world ''timed'' 135 False)
   \<and> session (running_world ''timed'' 135 False) = Some (running_session ''timed'')
   \<and> game_active (running_session ''timed'')
   \<and> game_mode (running_session ''timed'') = ''timed''
   \<and> real_of_int (get_time_limit (config (running_session ''timed'')))
       \<le> shd (clock (running_world ''timed'' 135 False)) - start_time (running_session ''timed'')"
proof -
  have e: "strip (lower ''middle'') = ''middle''"
    by (simp add: strip_def lower_def py_isupper_def py_isspace_def)
  show ?thesis
    by (simp add: play_round_def e running_world_def running_session_def add_mode_config_def
        get_time_limit_def)
qed

text \<open>
  C2, amended. For an active timed game whose time limit has passed at the reading of the
  clock: the web \<open>play_round\<close>, given a choice that (lower-cased and stripped) names a
  cup, switches the game off and answers \<open>game_over\<close> with the reason "Time limit
  exceeded" and the unchanged score, reading the clock once and drawing nothing from the
  random source; given a choice that names no cup it answers "Invalid cup choice" and
  leaves the world as it was. The terminal \<open>play_round\<close> returns \<open>False\<close> before anything
  is drawn or read, the game object unchanged.
\<close>

theorem time_limit_ends_round:
  "(session w = Some s \<and> game_active s \<and> game_mode s = ''timed''
      \<and> real_of_int (get_time_limit (config s)) \<le> shd (clock w) - start_time s
      \<and> strip (lower choice) \<in> set (cups (config s))
     \<longrightarrow> play_round choice w =
           ((200, TimeOver (wins s) (losses s)),
            w\<lparr>clock := stl (clock w), session := Some (s\<lparr>game_active := False\<rparr>)\<rparr>)
         \<and> game_over (snd (fst (play_round choice w))) = Some True
         \<and> reason (snd (fst (play_round choice w))) = Some ''Time limit exceeded''
         \<and> rng (snd (play_round choice w)) = rng w)
   \<and> (session w = Some s \<and> game_active s \<and> game_mode s = ''timed''
      \<and> real_of_int (get_time_limit (config s)) \<le> shd (clock w) - start_time s
      \<and> strip (lower choice) \<notin> set (cups (config s))
     \<longrightarrow> play_round choice w = ((400, Error ''Invalid cup choice''), w))
   \<and> (self_game_mode self = TIMED \<and> self_start_time self = Some started
      \<and> real_of_int (get_time_limit (self_config self)) \<le> shd (clock t) - started
     \<longrightarrow> play_round_cli self t = (False, self, t\<lparr>clock := stl (clock t)\<rparr>))"
  using play_round_time_over[of w s choice] play_round_invalid[of w s choice]
    play_round_cli_time_over[of self started t]
  by simp

theorem time_limit_ends_round_witness:
  "play_round ''Left '' (running_world ''timed'' 135 False) =
     ((200, TimeOver 2 0),
      (running_world ''timed'' 135 False)
        \<lparr>session := Some ((running_session ''timed'')\<lparr>game_active := False\<rparr>)\<rparr>)
   \<and> play_round ''middle'' (running_world ''timed'' 135 False)
     = ((400, Error ''Invalid cup choice''), running_world ''timed'' 135 False)
   \<and> play_round_cli ((new_cup_game HARD TIMED)\<lparr>self_start_time := Some 0\<rparr>)
        \<lparr>db_rows = [], db_faults = sconst False, rng = sconst 1, clock = sconst 35,
         stdin = [''left'']\<rparr>
     = (False, (new_cup_game HARD TIMED)\<lparr>self_start_time := Some 0\<rparr>,
        \<lparr>db_rows = [], db_faults = sconst False, rng = sconst 1, clock = sconst 35,
         stdin = [''left'']\<rparr>)"
proof -
  have e: "strip (lower ''middle'') = ''middle''" "strip (lower ''Left '') = ''left''"
    by (simp_all add: strip_def lower_def py_isupper_def py_isspace_def)
  have s: "session (running_world ''timed'' 135 False) = Some (running_session ''timed'')"
    "clock (running_world ''timed'' 135 False) = sconst 135"
    by (simp_all add: running_world_def)
  have c: "cups (config (running_session ''timed'')) = [''left'', ''right'']"
    "get_time_limit (config (running_session ''timed'')) = 30"
    "game_active (running_session ''timed'')" "game_mode (running_session ''timed'') = ''timed''"
    "start_time (running_session ''timed'') = 100"
    "wins (running_session ''timed'') = 2" "losses (running_session ''timed'') = 0"
    by (simp_all add: running_session_def add_mode_config_def get_time_limit_def)
  have g: "get_time_limit (self_config (new_cup_game HARD TIMED)) = 30"
    "self_game_mode (new_cup_game HARD TIMED) = TIMED"
    by (simp_all add: new_cup_game_def get_game_config_def get_time_limit_def)
  have w: "(running_world ''timed'' 135 False)\<lparr>clock := sconst 135\<rparr> = running_world ''timed'' 135 False"
    by (simp add: running_world_def)
  show ?thesis
    using time_limit_ends_round[where w="running_world ''timed'' 135 False"
        and s="running_session ''timed''" and choice="''Left ''"
        and self="(new_cup_game HARD TIMED)\<lparr>self_start_time := Some 0\<rparr>" and started=0
        and t="\<lparr>db_rows = [], db_faults = sconst False, rng = sconst 1, clock = sconst 35,
         stdin = [''left'']\<rparr>"]
      time_limit_ends_round[where w="running_world ''timed'' 135 False"
        and s="running_session ''timed''" and choice="''middle''"]
    by (simp add: e s c g w)
qed

section \<open>The streak rule\<close>

text \<open>
  A web round of an active streak game that answers \<open>won_round\<close> false is the
  "Streak broken" outcome, with the loss counted and the game switched off.
\<close>

lemma streak_loss_shape:
  assumes "session w = Some s" "game_active s" "game_mode s = ''streak''"
    "won_round (snd (fst (play_round choice w))) = Some False"
  shows "\<exists>cup prize d.
           fst (play_round choice w)
             = (200, RoundOver False cup prize ''Streak broken'' (wins s) (losses s + 1) d)
           \<and> session (snd (play_round choice w))
             = Some (s\<lparr>losses := losses s + 1, game_active := False\<rparr>)"
  using assms
  by (auto simp: play_round_def draw_and_score_def next_round_def finish_game_def
      time_time_def random_choice_def save_game_session_def Let_def
      split: prod.splits sum.splits option.splits if_splits)

text \<open>
  The running streak game, five seconds after its start: the choice is left, the prize
  is under the right cup.
\<close>

lemma running_streak_loss:
  "play_round ''left'' (running_world ''streak'' 105 False) =
     ((200, RoundOver False ''right'' ''a Ferrari'' ''Streak broken'' 2 1 5),
      (running_world ''streak'' 105 False)
        \<lparr>db_rows := [SessionRecord ''easy'' ''streak'' 2 1 (Some 5)],
         session := Some ((running_session ''streak'')\<lparr>losses := 1, game_active := False\<rparr>)\<rparr>)"
proof -
  have e: "strip (lower ''left'') = ''left''"
    by (simp add: strip_def lower_def py_isupper_def py_isspace_def)
  show ?thesis
    by (simp add: play_round_def e running_world_def running_session_def add_mode_config_def
        draw_and_score_def random_choice_def prizes_def finish_game_def time_time_def
        save_game_session_def)
qed

section \<open>A failing store\<close>

text \<open>The same lost round of the running streak game when the store raises.\<close>

lemma running_streak_loss_store_fails:
  "play_round ''left'' (running_world ''streak'' 105 True) =
     ((500, Error ''Failed to play round''),
      (running_world ''streak'' 105 True)
        \<lparr>session := Some ((running_session ''streak'')\<lparr>losses := 1, game_active := False\<rparr>)\<rparr>)"
proof -
  have e: "strip (lower ''left'') = ''left''"
    by (simp add: strip_def lower_def py_isupper_def py_isspace_def)
  show ?thesis
    by (simp add: play_round_def e running_world_def running_session_def add_mode_config_def
        draw_and_score_def random_choice_def prizes_def finish_game_def time_time_def
        save_game_session_def)
qed

text \<open>
  C5, as stated, fails for the web front end: when the insert raises, the handler's
  \<open>except Exception\<close> answers the generic failure with status 500, and the outcome of the
  round (winning cup, prize, won flag, score) is not in the answer.
\<close>

theorem store_failure_hides_outcome:
  "fst (play_round ''left'' (running_world ''streak'' 105 True))
     = (500, Error ''Failed to play round'')
   \<and> shd (db_faults (running_world ''streak'' 105 True))"
  by (simp add: running_streak_loss_store_fails) (simp add: running_world_def)

lemma play_round_cli_store:
  "db_rows (snd (snd (play_round_cli self t))) = db_rows t
   \<and> db_faults (snd (snd (play_round_cli self t))) = db_faults t"
  by (auto simp: play_round_cli_def draw_and_read_def time_time_def random_choice_def Let_def
      split: prod.splits sum.splits option.splits)

lemma show_summary_store_fails:
  "shd (db_faults t) \<Longrightarrow> db_rows (show_summary self t) = db_rows t"
  by (auto simp: show_summary_def save_game_session_def time_time_def Let_def
      split: prod.splits option.splits)

lemma play_round_store_fails:
  assumes "session w = Some s" "game_active s" "game_mode s \<noteq> ''timed''"
    "strip (lower choice) \<in> set (cups (config s))"
    "shd (db_faults w)"
    "won = (strip (lower choice) = cups (config s) ! (shd (rng w) mod length (cups (config s))))"
    "(\<not> won \<and> game_mode s = ''streak'')
     \<or> max_rounds_reached (config s) (wins s + losses s + 1)"
  shows "fst (play_round choice w) = (500, Error ''Failed to play round'')
       \<and> db_rows (snd (play_round choice w)) = db_rows w
       \<and> (\<exists>s'. session (snd (play_round choice w)) = Some s' \<and> \<not> game_active s'
             \<and> wins s' = (if won then wins s + 1 else wins s)
             \<and> losses s' = (if won then losses s else losses s + 1))"
proof -
  have ne: "cups (config s) \<noteq> []"
    using assms(4) by auto
  have m: "max_rounds_reached (config s) (wins s + 1 + losses s)
             = max_rounds_reached (config s) (wins s + losses s + 1)"
    "max_rounds_reached (config s) (wins s + (losses s + 1))
             = max_rounds_reached (config s) (wins s + losses s + 1)"
    by (simp_all add: add.commute add.left_commute)
  show ?thesis
    using assms ne
    by (auto simp: play_round_def draw_and_score_def next_round_def finish_game_def
        time_time_def random_choice_def save_game_session_def Let_def m prizes_def)
qed

text \<open>
  C5, amended. When a round of the web \<open>play_round\<close> ends the game (a lost round in
  streak mode, or the maximum of rounds reached) and the insert of the session record
  raises, the answer is the failure "Failed to play round" with status 500 in place of the
  outcome; no record is stored; the session keeps the score with the round counted (the
  win or the loss added) and is switched off. In the terminal a round never touches the
  store, so its outcome cannot be lost to it, and \<open>show_summary\<close> drops the error of a
  failing insert, storing nothing.
\<close>

theorem store_failure:
  "(session w = Some s \<and> game_active s \<and> game_mode s \<noteq> ''timed''
      \<and> strip (lower choice) \<in> set (cups (config s))
      \<and> shd (db_faults w)
      \<and> won = (strip (lower choice)
                 = cups (config s) ! (shd (rng w) mod length (cups (config s))))
      \<and> ((\<not> won \<and> game_mode s = ''streak'')
           \<or> max_rounds_reached (config s) (wins s + losses s + 1))
     \<longrightarrow> fst (play_round choice w) = (500, Error ''Failed to play round'')
         \<and> db_rows (snd (play_round choice w)) = db_rows w
         \<and> (\<exists>s'. session (snd (play_round choice w)) = Some s' \<and> \<not> game_active s'
               \<and> wins s' = (if won then wins s + 1 else wins s)
               \<and> losses s' = (if won then losses s else losses s + 1)))
   \<and> db_rows (snd (snd (play_round_cli self t))) = db_rows t
   \<and> db_faults (snd (snd (play_round_cli self t))) = db_faults t
   \<and> (shd (db_faults t) \<longrightarrow> db_rows (show_summary self t) = db_rows t)"
  using play_round_store_fails[of w s choice won] play_round_cli_store[of self t]
    show_summary_store_fails[of t self]
  by blast

theorem store_failure_witness:
  "fst (play_round ''left'' (running_world ''streak'' 105 True))
     = (500, Error ''Failed to play round'')
   \<and> db_rows (snd (play_round ''left'' (running_world ''streak'' 105 True))) = []
   \<and> session (snd (play_round ''left'' (running_world ''streak'' 105 True)))
     = Some ((running_session ''streak'')\<lparr>losses := 1, game_active := False\<rparr>)
   \<and> db_rows (show_summary (new_cup_game EASY STREAK)
        \<lparr>db_rows = [], db_faults = sconst True, rng = sconst 1, clock = sconst 5,
         stdin = []\<rparr>) = []"
proof -
  have e: "strip (lower ''left'') = ''left''"
    by (simp add: strip_def lower_def py_isupper_def py_isspace_def)
  have s: "session (running_world ''streak'' 105 True) = Some (running_session ''streak'')"
    "shd (db_faults (running_world ''streak'' 105 True))"
    "rng (running_world ''streak'' 105 True) = sconst 1"
    "db_rows (running_world ''streak'' 105 True) = []"
    by (simp_all add: running_world_def)
  have a: "game_active (running_session ''streak'')"
    "game_mode (running_session ''streak'') = ''streak''"
    "cups (config (running_session ''streak'')) = [''left'', ''right'']"
    by (simp_all add: running_session_def add_mode_config_def)
  show ?thesis
    using store_failure[where w="running_world ''streak'' 105 True"
        and s="running_session ''streak''" and choice="''left''" and won=False
        and self="new_cup_game EASY STREAK"
        and t="\<lparr>db_rows = [], db_faults = sconst True, rng = sconst 1, clock = sconst 5,
         stdin = []\<rparr>"]
    by (simp add: e s a running_streak_loss_store_fails)
qed

section \<open>The score over a game\<close>

lemmas handler_defs =
  play_round_def draw_and_score_def next_round_def finish_game_def end_game_def
  get_game_status_def time_time_def random_choice_def save_game_session_def Let_def

lemma play_round_monotone:
  assumes "session w = Some s"
  shows "\<exists>s'. session (snd (play_round choice w)) = Some s'
           \<and> wins s \<le> wins s' \<and> losses s \<le> losses s'"
  using assms
  by (auto simp: handler_defs split: prod.splits sum.splits option.splits if_splits)

lemma end_game_monotone:
  assumes "session w = Some s"
  shows "\<exists>s'. session (snd (end_game w)) = Some s'
           \<and> wins s \<le> wins s' \<and> losses s \<le> losses s'"
  using assms
  by (auto simp: handler_defs split: prod.splits sum.splits option.splits if_splits)

lemma get_game_status_monotone:
  assumes "session w = Some s"
  shows "\<exists>s'. session (snd (get_game_status w)) = Some s'
           \<and> wins s \<le> wins s' \<and> losses s \<le> losses s'"
  using assms
  by (auto simp: handler_defs split: prod.splits sum.splits option.splits if_splits)

lemma handle_monotone:
  assumes "session w = Some s" "\<not> is_start r"
  shows "\<exists>s'. session (snd (handle r w)) = Some s'
           \<and> wins s \<le> wins s' \<and> losses s \<le> losses s'"
  using assms play_round_monotone end_game_monotone get_game_status_monotone
  by (cases r) auto

lemma serve_monotone:
  assumes "session w = Some s" "\<forall>r \<in> set rs. \<not> is_start r"
  shows "\<exists>s'. session (serve rs w) = Some s' \<and> wins s \<le> wins s' \<and> losses s \<le> losses s'"
  using assms
proof (induction rs arbitrary: w s)
  case Nil
  then show ?case by simp
next
  case (Cons r rs)
  obtain s1 where s1: "session (snd (handle r w)) = Some s1"
    "wins s \<le> wins s1" "losses s \<le> losses s1"
    using handle_monotone[of w s r] Cons.prems by auto
  obtain s' where "session (serve rs (snd (handle r w))) = Some s'"
    "wins s1 \<le> wins s'" "losses s1 \<le> losses s'"
    using Cons.IH[OF s1(1)] Cons.prems(2) by auto
  then show ?case using s1 by auto
qed

lemma score_round_monotone:
  "score_round self c p = (go_on, self')
   \<Longrightarrow> self_wins self \<le> self_wins self' \<and> self_losses self \<le> self_losses self'"
  by (auto simp: score_round_def check_max_rounds_def Let_def split: if_splits)

lemma play_round_cli_monotone:
  "self_wins self \<le> self_wins (fst (snd (play_round_cli self t)))
   \<and> self_losses self \<le> self_losses (fst (snd (play_round_cli self t)))"
  by (auto simp: play_round_cli_def draw_and_read_def time_time_def random_choice_def Let_def
      split: prod.splits sum.splits option.splits dest: score_round_monotone)

text \<open>
  C8. Over any sequence of requests on one session (rounds, status polls, the end of the
  game; \<open>start_game\<close> opens another session), the wins, the losses and their sum never
  decrease. The same holds for a round of the terminal game.
\<close>

theorem score_never_decreases:
  "(session w = Some s \<and> (\<forall>r \<in> set rs. \<not> is_start r)
     \<longrightarrow> (\<exists>s'. session (serve rs w) = Some s'
            \<and> wins s \<le> wins s' \<and> losses s \<le> losses s'
            \<and> wins s + losses s \<le> wins s' + losses s'))
   \<and> self_wins self \<le> self_wins (fst (snd (play_round_cli self t)))
   \<and> self_losses self \<le> self_losses (fst (snd (play_round_cli self t)))
   \<and> self_wins self + self_losses self
       \<le> self_wins (fst (snd (play_round_cli self t)))
         + self_losses (fst (snd (play_round_cli self t)))"
proof -
  have "session w = Some s \<and> (\<forall>r \<in> set rs. \<not> is_start r)
     \<longrightarrow> (\<exists>s'. session (serve rs w) = Some s'
            \<and> wins s \<le> wins s' \<and> losses s \<le> losses s'
            \<and> wins s + losses s \<le> wins s' + losses s')"
    using serve_monotone[of w s rs] by fastforce
  then show ?thesis
    using play_round_cli_monotone[of self t] by simp
qed


text \<open>The running classic game: the right cup is chosen and wins, then a status poll.\<close>

lemma running_classic_win:
  "serve [PlayRound ''right'', GameStatus] (running_world ''classic'' 105 False) =
     (running_world ''classic'' 105 False)
       \<lparr>session := Some ((running_session ''classic'')\<lparr>wins := 3, round_number := 4\<rparr>)\<rparr>"
proof -
  have e: "strip (lower ''right'') = ''right''"
    by (simp add: strip_def lower_def py_isupper_def py_isspace_def)
  show ?thesis
    by (simp add: play_round_def e running_world_def running_session_def add_mode_config_def
        draw_and_score_def random_choice_def prizes_def next_round_def max_rounds_reached_def
        get_game_status_def Let_def)
qed

theorem score_never_decreases_witness:
  "session (serve [PlayRound ''right'', GameStatus] (running_world ''classic'' 105 False))
     = Some ((running_session ''classic'')\<lparr>wins := 3, round_number := 4\<rparr>)
   \<and> wins (running_session ''classic'') \<le> 3
   \<and> self_wins (new_cup_game EASY CLASSIC)
       \<le> self_wins (fst (snd (play_round_cli (new_cup_game EASY CLASSIC)
            \<lparr>db_rows = [], db_faults = sconst False, rng = sconst 1, clock = sconst 5,
             stdin = [''right'']\<rparr>)))"
proof -
  have s: "session (running_world ''classic'' 105 False) = Some (running_session ''classic'')"
    by (simp add: running_world_def)
  show ?thesis
    unfolding running_classic_win
    using score_never_decreases[where w="running_world ''classic'' 105 False"
        and s="running_session ''classic''" and rs="[PlayRound ''right'', GameStatus]"
        and self="new_cup_game EASY CLASSIC"
        and t="\<lparr>db_rows = [], db_faults = sconst False, rng = sconst 1, clock = sconst 5,
             stdin = [''right'']\<rparr>", unfolded running_classic_win]
    by (simp add: s running_session_def)
qed

section \<open>The maximum of rounds\<close>














section \<open>Persisting a finished session\<close>

lemma inactive_handle:
  assumes "session w = None \<or> (\<exists>s. session w = Some s \<and> \<not> game_active s)" "\<not> is_start r"
  shows "snd (handle r w) = w"
  using assms
  by (cases r) (auto simp: play_round_def end_game_def get_game_status_def)

text \<open>Once the game is off, nothing but a new \<open>start_game\<close> changes the world.\<close>

lemma inactive_serve:
  assumes "session w = None \<or> (\<exists>s. session w = Some s \<and> \<not> game_active s)"
    "\<forall>r \<in> set rs. \<not> is_start r"
  shows "serve rs w = w"
  using assms
  by (induction rs) (simp_all add: inactive_handle)

text \<open>
  A request on one session stores at most one record, and after storing one the game
  is off.
\<close>

lemma handle_stores:
  assumes "\<not> is_start r"
  shows "db_rows (snd (handle r w)) = db_rows w
       \<or> (\<exists>row s'. db_rows (snd (handle r w)) = db_rows w @ [row]
             \<and> session (snd (handle r w)) = Some s' \<and> \<not> game_active s')"
  using assms
  by (cases r)
    (auto simp: handler_defs split: prod.splits sum.splits option.splits if_splits)

lemma serve_stores_at_most_once:
  assumes "\<forall>r \<in> set rs. \<not> is_start r"
  shows "db_rows (serve rs w) = db_rows w \<or> (\<exists>row. db_rows (serve rs w) = db_rows w @ [row])"
  using assms
proof (induction rs arbitrary: w)
  case Nil
  then show ?case by simp
next
  case (Cons r rs)
  have r: "\<not> is_start r" and rs: "\<forall>r \<in> set rs. \<not> is_start r"
    using Cons.prems by simp_all
  from handle_stores[OF r, of w] show ?case
  proof
    assume "db_rows (snd (handle r w)) = db_rows w"
    then show ?thesis using Cons.IH[OF rs, of "snd (handle r w)"] by simp
  next
    assume "\<exists>row s'. db_rows (snd (handle r w)) = db_rows w @ [row]
             \<and> session (snd (handle r w)) = Some s' \<and> \<not> game_active s'"
    then obtain row s' where row: "db_rows (snd (handle r w)) = db_rows w @ [row]"
      and off: "session (snd (handle r w)) = Some s'" "\<not> game_active s'"
      by blast
    have "serve rs (snd (handle r w)) = snd (handle r w)"
      by (rule inactive_serve) (use off rs in auto)
    then show ?thesis using row by simp
  qed
qed

text \<open>The status poll on the running timed game, past its limit.\<close>

lemma running_timed_poll:
  "get_game_status (running_world ''timed'' 135 False) =
   ((200, StatusExpired),
    (running_world ''timed'' 135 False)
      \<lparr>db_rows := [SessionRecord ''easy'' ''timed'' 2 0 (Some 35)],
       session := Some ((running_session ''timed'')\<lparr>game_active := False\<rparr>)\<rparr>)"
  unfolding get_game_status_def
  by (simp add: running_world_def running_session_def add_mode_config_def get_time_limit_def
      time_time_def save_game_session_def Let_def)

text \<open>
  C1 fails on the code in one of the four ways a game ends. The running timed game has
  passed its limit (it started at second 100, the limit is 30, the clock reads 135). A
  round with the valid choice left ends it: the answer is \<open>game_over\<close> with the reason
  "Time limit exceeded", the game is off, and no record is stored; the status poll and the
  explicit end of the game that follow find no active game, so none is stored later
  either. The status poll alone, on the same game, stores its record.
\<close>

theorem time_limit_round_stores_nothing:
  "fst (play_round ''left'' (running_world ''timed'' 135 False)) = (200, TimeOver 2 0)
   \<and> serve [PlayRound ''left''] (running_world ''timed'' 135 False)
       = (running_world ''timed'' 135 False)
           \<lparr>session := Some ((running_session ''timed'')\<lparr>game_active := False\<rparr>)\<rparr>
   \<and> db_rows (serve [PlayRound ''left'', GameStatus, EndGame]
                (running_world ''timed'' 135 False)) = []
   \<and> fst (end_game (serve [PlayRound ''left''] (running_world ''timed'' 135 False)))
       = (400, Error ''No active game'')
   \<and> db_rows (serve [GameStatus] (running_world ''timed'' 135 False))
       = [SessionRecord ''easy'' ''timed'' 2 0 (Some 35)]"
proof -
  have e: "strip (lower ''left'') = ''left''"
    by (simp add: strip_def lower_def py_isupper_def py_isspace_def)
  have p: "play_round ''left'' (running_world ''timed'' 135 False) =
     ((200, TimeOver 2 0),
      (running_world ''timed'' 135 False)
        \<lparr>session := Some ((running_session ''timed'')\<lparr>game_active := False\<rparr>)\<rparr>)"
    by (simp add: play_round_def e running_world_def running_session_def add_mode_config_def
        get_time_limit_def time_time_def)
  have off: "\<And>rs. \<forall>r \<in> set rs. \<not> is_start r \<Longrightarrow>
     serve rs ((running_world ''timed'' 135 False)
        \<lparr>session := Some ((running_session ''timed'')\<lparr>game_active := False\<rparr>)\<rparr>)
      = (running_world ''timed'' 135 False)
        \<lparr>session := Some ((running_session ''timed'')\<lparr>game_active := False\<rparr>)\<rparr>"
    by (rule inactive_serve) simp_all
  have a: "serve [PlayRound ''left''] (running_world ''timed'' 135 False)
       = (running_world ''timed'' 135 False)
           \<lparr>session := Some ((running_session ''timed'')\<lparr>game_active := False\<rparr>)\<rparr>"
    by (simp add: p)
  have b: "serve [PlayRound ''left'', GameStatus, EndGame] (running_world ''timed'' 135 False)
       = (running_world ''timed'' 135 False)
           \<lparr>session := Some ((running_session ''timed'')\<lparr>game_active := False\<rparr>)\<rparr>"
    using off[of "[GameStatus, EndGame]"] by (simp add: p)
  have c: "fst (end_game ((running_world ''timed'' 135 False)
           \<lparr>session := Some ((running_session ''timed'')\<lparr>game_active := False\<rparr>)\<rparr>))
       = (400, Error ''No active game'')"
    by (simp add: end_game_def)
  have d: "db_rows (serve [GameStatus] (running_world ''timed'' 135 False))
       = [SessionRecord ''easy'' ''timed'' 2 0 (Some 35)]"
    by (simp add: running_timed_poll)
  have f: "db_rows ((running_world ''timed'' 135 False)
           \<lparr>session := Some ((running_session ''timed'')\<lparr>game_active := False\<rparr>)\<rparr>) = []"
    by (simp add: running_world_def)
  show ?thesis
    unfolding a b d f c p by simp
qed

section \<open>A lost round in streak mode\<close>

lemma play_round_streak_lost:
  assumes "session w = Some s" "game_active s" "game_mode s = ''streak''"
    "strip (lower choice) \<in> set (cups (config s))"
    "cups (config s) ! (shd (rng w) mod length (cups (config s))) \<noteq> strip (lower choice)"
  shows "play_round choice w =
          (if shd (db_faults w)
           then ((500, Error ''Failed to play round''),
                 w\<lparr>rng := stl (stl (rng w)), clock := stl (clock w),
                   db_faults := stl (db_faults w),
                   session := Some (s\<lparr>losses := losses s + 1, game_active := False\<rparr>)\<rparr>)
           else ((200, RoundOver False
                         (cups (config s) ! (shd (rng w) mod length (cups (config s))))
                         (prizes ! (shd (stl (rng w)) mod length prizes))
                         ''Streak broken'' (wins s) (losses s + 1)
                         (shd (clock w) - start_time s)),
                 w\<lparr>rng := stl (stl (rng w)), clock := stl (clock w),
                   db_faults := stl (db_faults w),
                   db_rows := db_rows w @
                     [SessionRecord (difficulty s) (game_mode s) (wins s) (losses s + 1)
                        (Some (shd (clock w) - start_time s))],
                   session := Some (s\<lparr>losses := losses s + 1, game_active := False\<rparr>)\<rparr>))"
proof -
  have ne: "cups (config s) \<noteq> []"
    using assms(4) by auto
  have p: "prizes \<noteq> []"
    by (simp add: prizes_def)
  show ?thesis
    using assms ne p
    by (simp add: play_round_def draw_and_score_def finish_game_def time_time_def
        random_choice_def save_game_session_def Let_def)
qed

lemma play_round_cli_streak_lost:
  assumes "self_game_mode self = STREAK" "cups (self_config self) \<noteq> []"
    "read_choice self (stdin t) = (Some c, rest)"
    "c \<noteq> cups (self_config self) ! (shd (rng t) mod length (cups (self_config self)))"
  shows "play_round_cli self t =
           (False, self\<lparr>self_losses := self_losses self + 1\<rparr>,
            t\<lparr>rng := stl (stl (rng t)), stdin := rest\<rparr>)"
proof -
  have p: "prizes \<noteq> []"
    by (simp add: prizes_def)
  show ?thesis
    using assms p
    by (simp add: play_round_cli_def draw_and_read_def random_choice_def score_round_def
        Let_def)
qed


text \<open>The first two rounds of an easy streak game in the terminal: left, then right.\<close>

lemma cli_streak_rounds:
  "play_round_cli (new_cup_game EASY STREAK)
     \<lparr>db_rows = [], db_faults = sconst False, rng = sconst 1, clock = sconst 5,
      stdin = [''left'', ''right'']\<rparr>
     = (False, (new_cup_game EASY STREAK)\<lparr>self_losses := 1\<rparr>,
        \<lparr>db_rows = [], db_faults = sconst False, rng = sconst 1, clock = sconst 5,
         stdin = [''right'']\<rparr>)"
  "play_round_cli ((new_cup_game EASY STREAK)\<lparr>self_losses := 1\<rparr>)
     \<lparr>db_rows = [], db_faults = sconst False, rng = sconst 1, clock = sconst 5,
      stdin = [''right'']\<rparr>
     = (True, (new_cup_game EASY STREAK)\<lparr>self_wins := 1, self_losses := 1\<rparr>,
        \<lparr>db_rows = [], db_faults = sconst False, rng = sconst 1, clock = sconst 5,
         stdin = []\<rparr>)"
proof -
  have e: "strip (lower ''right'') = ''right''" "strip (lower ''left'') = ''left''"
    by (simp_all add: strip_def lower_def py_isupper_def py_isspace_def)
  have c: "cups (self_config (new_cup_game EASY STREAK)) = [''left'', ''right'']"
    "max_rounds (self_config (new_cup_game EASY STREAK)) = Some 10"
    "self_game_mode (new_cup_game EASY STREAK) = STREAK"
    "self_wins (new_cup_game EASY STREAK) = 0" "self_losses (new_cup_game EASY STREAK) = 0"
    by (simp_all add: new_cup_game_def get_game_config_def)
  show "play_round_cli (new_cup_game EASY STREAK)
     \<lparr>db_rows = [], db_faults = sconst False, rng = sconst 1, clock = sconst 5,
      stdin = [''left'', ''right'']\<rparr>
     = (False, (new_cup_game EASY STREAK)\<lparr>self_losses := 1\<rparr>,
        \<lparr>db_rows = [], db_faults = sconst False, rng = sconst 1, clock = sconst 5,
         stdin = [''right'']\<rparr>)"
    by (simp add: play_round_cli_def draw_and_read_def random_choice_def prizes_def c e
        read_choice_step score_round_def del: read_choice.simps(2))
  show "play_round_cli ((new_cup_game EASY STREAK)\<lparr>self_losses := 1\<rparr>)
     \<lparr>db_rows = [], db_faults = sconst False, rng = sconst 1, clock = sconst 5,
      stdin = [''right'']\<rparr>
     = (True, (new_cup_game EASY STREAK)\<lparr>self_wins := 1, self_losses := 1\<rparr>,
        \<lparr>db_rows = [], db_faults = sconst False, rng = sconst 1, clock = sconst 5,
         stdin = []\<rparr>)"
    by (simp add: play_round_cli_def draw_and_read_def random_choice_def prizes_def c e
        read_choice_step score_round_def check_max_rounds_def max_rounds_reached_def
        del: read_choice.simps(2))
qed

text \<open>
  C4, as stated, fails in two places. In the terminal a game object has no active flag
  and no "no active game": after the lost round of an easy streak game (left chosen, the
  prize under the right cup, \<open>False\<close> returned) a further \<open>play_round\<close> on the same object
  plays a round, adds a win and returns \<open>True\<close>. On the web, when the insert of the
  session record raises, the lost round answers the failure with status 500, which
  carries neither \<open>game_over\<close> nor a reason.
\<close>

theorem streak_broken_not_refused:
  "play_round_cli (new_cup_game EASY STREAK)
     \<lparr>db_rows = [], db_faults = sconst False, rng = sconst 1, clock = sconst 5,
      stdin = [''left'', ''right'']\<rparr>
     = (False, (new_cup_game EASY STREAK)\<lparr>self_losses := 1\<rparr>,
        \<lparr>db_rows = [], db_faults = sconst False, rng = sconst 1, clock = sconst 5,
         stdin = [''right'']\<rparr>)
   \<and> play_round_cli ((new_cup_game EASY STREAK)\<lparr>self_losses := 1\<rparr>)
     \<lparr>db_rows = [], db_faults = sconst False, rng = sconst 1, clock = sconst 5,
      stdin = [''right'']\<rparr>
     = (True, (new_cup_game EASY STREAK)\<lparr>self_wins := 1, self_losses := 1\<rparr>,
        \<lparr>db_rows = [], db_faults = sconst False, rng = sconst 1, clock = sconst 5,
         stdin = []\<rparr>)
   \<and> fst (play_round ''left'' (running_world ''streak'' 105 True))
     = (500, Error ''Failed to play round'')
   \<and> game_over (snd (fst (play_round ''left'' (running_world ''streak'' 105 True)))) = None
   \<and> reason (snd (fst (play_round ''left'' (running_world ''streak'' 105 True)))) = None"
  using cli_streak_rounds running_streak_loss_store_fails by simp

text \<open>
  C4, amended. On the web, a round of an active streak game whose valid choice is not
  the cup drawn counts the loss and switches the game off, whatever the store does; when
  the store takes the record the answer is the outcome with \<open>won_round\<close> false,
  \<open>game_over\<close> and the reason "Streak broken", and when the insert raises it is the
  failure with status 500. After that round every \<open>play_round\<close>, whatever the choice,
  answers "No active game" and leaves the world, and with it wins and losses, as it was.
  In the terminal, a round of a streak game whose accepted choice is not the cup drawn
  counts the loss and returns \<open>False\<close>, and the loop of \<open>run\<close> ends there without another
  round.
\<close>

theorem streak_lost_round:
  "(session w = Some s \<and> game_active s \<and> game_mode s = ''streak''
      \<and> strip (lower choice) \<in> set (cups (config s))
      \<and> cups (config s) ! (shd (rng w) mod length (cups (config s))) \<noteq> strip (lower choice)
     \<longrightarrow> session (snd (play_round choice w))
           = Some (s\<lparr>losses := losses s + 1, game_active := False\<rparr>)
         \<and> (\<not> shd (db_faults w) \<longrightarrow>
               fst (play_round choice w) =
                 (200, RoundOver False
                         (cups (config s) ! (shd (rng w) mod length (cups (config s))))
                         (prizes ! (shd (stl (rng w)) mod length prizes))
                         ''Streak broken'' (wins s) (losses s + 1)
                         (shd (clock w) - start_time s))
               \<and> won_round (snd (fst (play_round choice w))) = Some False
               \<and> game_over (snd (fst (play_round choice w))) = Some True
               \<and> reason (snd (fst (play_round choice w))) = Some ''Streak broken'')
         \<and> (shd (db_faults w) \<longrightarrow>
               fst (play_round choice w) = (500, Error ''Failed to play round''))
         \<and> (\<forall>choice2. play_round choice2 (snd (play_round choice w))
               = ((400, Error ''No active game''), snd (play_round choice w))))
   \<and> (self_game_mode self = STREAK \<and> cups (self_config self) \<noteq> []
      \<and> read_choice self (stdin t) = (Some c, rest)
      \<and> c \<noteq> cups (self_config self) ! (shd (rng t) mod length (cups (self_config self)))
     \<longrightarrow> play_round_cli self t =
           (False, self\<lparr>self_losses := self_losses self + 1\<rparr>,
            t\<lparr>rng := stl (stl (rng t)), stdin := rest\<rparr>)
         \<and> game_loop self t =
           (None, self\<lparr>self_losses := self_losses self + 1\<rparr>,
            t\<lparr>rng := stl (stl (rng t)), stdin := rest\<rparr>))"
proof -
  have web: "session (snd (play_round choice w))
           = Some (s\<lparr>losses := losses s + 1, game_active := False\<rparr>)
         \<and> (\<not> shd (db_faults w) \<longrightarrow>
               fst (play_round choice w) =
                 (200, RoundOver False
                         (cups (config s) ! (shd (rng w) mod length (cups (config s))))
                         (prizes ! (shd (stl (rng w)) mod length prizes))
                         ''Streak broken'' (wins s) (losses s + 1)
                         (shd (clock w) - start_time s))
               \<and> won_round (snd (fst (play_round choice w))) = Some False
               \<and> game_over (snd (fst (play_round choice w))) = Some True
               \<and> reason (snd (fst (play_round choice w))) = Some ''Streak broken'')
         \<and> (shd (db_faults w) \<longrightarrow>
               fst (play_round choice w) = (500, Error ''Failed to play round''))
         \<and> (\<forall>choice2. play_round choice2 (snd (play_round choice w))
               = ((400, Error ''No active game''), snd (play_round choice w)))"
    if h: "session w = Some s" "game_active s" "game_mode s = ''streak''"
      "strip (lower choice) \<in> set (cups (config s))"
      "cups (config s) ! (shd (rng w) mod length (cups (config s))) \<noteq> strip (lower choice)"
  proof -
    note eq = play_round_streak_lost[OF h]
    have s': "session (snd (play_round choice w))
           = Some (s\<lparr>losses := losses s + 1, game_active := False\<rparr>)"
      by (simp add: eq)
    have "play_round choice2 (snd (play_round choice w))
          = ((400, Error ''No active game''), snd (play_round choice w))" for choice2
      by (rule play_round_inactive) (simp add: s')
    then show ?thesis
      using s' by (simp add: eq)
  qed
  have cli: "play_round_cli self t =
           (False, self\<lparr>self_losses := self_losses self + 1\<rparr>,
            t\<lparr>rng := stl (stl (rng t)), stdin := rest\<rparr>)
         \<and> game_loop self t =
           (None, self\<lparr>self_losses := self_losses self + 1\<rparr>,
            t\<lparr>rng := stl (stl (rng t)), stdin := rest\<rparr>)"
    if h: "self_game_mode self = STREAK" "cups (self_config self) \<noteq> []"
      "read_choice self (stdin t) = (Some c, rest)"
      "c \<noteq> cups (self_config self) ! (shd (rng t) mod length (cups (self_config self)))"
  proof -
    note eq = play_round_cli_streak_lost[OF h]
    show ?thesis
      by (simp add: eq game_loop.simps[of self t])
  qed
  show ?thesis
    using web cli by blast
qed

theorem streak_lost_round_witness:
  "play_round ''left'' (running_world ''streak'' 105 False) =
     ((200, RoundOver False ''right'' ''a Ferrari'' ''Streak broken'' 2 1 5),
      (running_world ''streak'' 105 False)
        \<lparr>db_rows := [SessionRecord ''easy'' ''streak'' 2 1 (Some 5)],
         session := Some ((running_session ''streak'')\<lparr>losses := 1, game_active := False\<rparr>)\<rparr>)
   \<and> play_round ''right''
       ((running_world ''streak'' 105 False)
        \<lparr>db_rows := [SessionRecord ''easy'' ''streak'' 2 1 (Some 5)],
         session := Some ((running_session ''streak'')\<lparr>losses := 1, game_active := False\<rparr>)\<rparr>)
     = ((400, Error ''No active game''),
        (running_world ''streak'' 105 False)
        \<lparr>db_rows := [SessionRecord ''easy'' ''streak'' 2 1 (Some 5)],
         session := Some ((running_session ''streak'')\<lparr>losses := 1, game_active := False\<rparr>)\<rparr>)
   \<and> fst (play_round ''left'' (running_world ''streak'' 105 True))
     = (500, Error ''Failed to play round'')
   \<and> game_loop (new_cup_game EASY STREAK)
       \<lparr>db_rows = [], db_faults = sconst False, rng = sconst 1, clock = sconst 5,
        stdin = [''left'', ''right'']\<rparr>
     = (None, (new_cup_game EASY STREAK)\<lparr>self_losses := 1\<rparr>,
        \<lparr>db_rows = [], db_faults = sconst False, rng = sconst 1, clock = sconst 5,
         stdin = [''right'']\<rparr>)"
proof -
  have e: "strip (lower ''left'') = ''left''"
    by (simp add: strip_def lower_def py_isupper_def py_isspace_def)
  have s: "\<And>f. session (running_world ''streak'' 105 f) = Some (running_session ''streak'')"
    "\<And>f. rng (running_world ''streak'' 105 f) = sconst 1"
    "\<And>f. db_faults (running_world ''streak'' 105 f) = sconst f"
    by (simp_all add: running_world_def)
  have a: "game_active (running_session ''streak'')"
    "game_mode (running_session ''streak'') = ''streak''"
    "cups (config (running_session ''streak'')) = [''left'', ''right'']"
    "losses (running_session ''streak'') = 0"
    by (simp_all add: running_session_def add_mode_config_def)
  have c: "cups (self_config (new_cup_game EASY STREAK)) = [''left'', ''right'']"
    "self_game_mode (new_cup_game EASY STREAK) = STREAK"
    "self_losses (new_cup_game EASY STREAK) = 0"
    by (simp_all add: new_cup_game_def get_game_config_def)
  have r: "read_choice (new_cup_game EASY STREAK) [''left'', ''right'']
             = (Some ''left'', [''right''])"
    by (simp add: read_choice_step e c del: read_choice.simps(2))
  show ?thesis
    using streak_lost_round[where w="running_world ''streak'' 105 False"
        and s="running_session ''streak''" and choice="''left''"
        and self="new_cup_game EASY STREAK"
        and t="\<lparr>db_rows = [], db_faults = sconst False, rng = sconst 1, clock = sconst 5,
               stdin = [''left'', ''right'']\<rparr>"
        and c="''left''" and rest="[''right'']"]
      streak_lost_round[where w="running_world ''streak'' 105 True"
        and s="running_session ''streak''" and choice="''left''"]
    by (simp add: e s a c r running_streak_loss running_streak_loss_store_fails
        del: read_choice.simps(2))
qed

end
